theory Spec2Isabelle
  imports Main "HOL-Library.Char_ord" "HOL-Library.List_Lexorder"
begin

section \<open>The media encoder worker (src/handler.py)\<close>

text \<open>
  A shallow embedding of \<^verbatim>\<open>handler.py\<close>. The handler drives three collaborators it
  does not own: the object store client (\<^verbatim>\<open>s3.download_file\<close>, \<^verbatim>\<open>s3.upload_file\<close>),
  the \<^verbatim>\<open>ffmpeg\<close> process started through \<^verbatim>\<open>subprocess.run\<close>, and \<^verbatim>\<open>uuid.uuid4\<close>.
  Their behaviour in one job is a parameter (the record \<open>collab\<close>); the local file
  system and the sequence of calls made to the collaborators are explicit state
  (the record \<open>world\<close>). Python exceptions are values of the type \<open>exn\<close>, and a
  function that can raise returns \<open>exn + 'a\<close> with \<open>Inl\<close> for the exception.
  The \<^verbatim>\<open>print\<close> calls of the source write a console log only and are left out.
\<close>

subsection \<open>Python values, exceptions, responses\<close>

datatype pyval =
    PNone
  | PBool bool
  | PInt int
  | PStr string
  | PList "pyval list"
  | PDict "(string \<times> pyval) list"

datatype exn =
    KeyError string
  | TypeError
  | OSError string
  | CalledProcessError int "string list"
  | StorageError string

text \<open>
  \<open>obj[key]\<close> with a string key: a dict looks the key up and raises \<^verbatim>\<open>KeyError\<close>
  when it is absent, every other JSON value raises \<^verbatim>\<open>TypeError\<close>.
\<close>

fun py_getitem :: "pyval \<Rightarrow> string \<Rightarrow> exn + pyval" where
  "py_getitem (PDict kvs) k =
     (case map_of kvs k of None \<Rightarrow> Inl (KeyError k) | Some v \<Rightarrow> Inr v)"
| "py_getitem _ k = Inl TypeError"

text \<open>
  The text of an error response is either a literal of the source or \<^verbatim>\<open>str(e)\<close>
  of the exception caught; the latter is kept symbolic.
\<close>

datatype message = Literal string | str_of exn

datatype response =
    Success (transcoded_video_key: string) (thumbnail_keys: "string list")
      (ai_analysis: "(string \<times> string) list") (public_base_url: string)
  | Error message

subsection \<open>Module level configuration (lines 9-33)\<close>

record config =
  S3_ENDPOINT_URL :: string
  S3_BUCKET_NAME :: string

type_synonym environ = "string \<rightharpoonup> string"

definition module_init :: "environ \<Rightarrow> config option" where
  "module_init environ =
     (case environ ''CLOUDFLARE_ACCOUNT_ID'' of None \<Rightarrow> None | Some account \<Rightarrow>
      case environ ''CLOUDFLARE_R2_ACCESS_KEY_ID'' of None \<Rightarrow> None | Some access \<Rightarrow>
      case environ ''CLOUDFLARE_R2_SECRET_ACCESS_KEY'' of None \<Rightarrow> None | Some secret \<Rightarrow>
      case environ ''CLOUDFLARE_R2_BUCKET_NAME'' of None \<Rightarrow> None | Some bucket \<Rightarrow>
        Some \<lparr>S3_ENDPOINT_URL = ''https://'' @ account @ ''.r2.cloudflarestorage.com'',
              S3_BUCKET_NAME = bucket\<rparr>)"

subsection \<open>Paths (posixpath)\<close>

definition os_path_basename :: "string \<Rightarrow> string" where
  "os_path_basename p = rev (takeWhile (\<lambda>c. c \<noteq> CHR ''/'') (rev p))"

text \<open>
  \<^verbatim>\<open>os.path.splitext\<close>: the extension starts at the last dot, provided that dot
  lies after the last separator and some character other than a dot stands between
  the separator and it.
\<close>

definition os_path_splitext :: "string \<Rightarrow> string \<times> string" where
  "os_path_splitext p =
     (let ext = rev (takeWhile (\<lambda>c. c \<noteq> CHR ''.'') (rev p));
          root = take (length p - length ext - 1) p
      in if CHR ''.'' \<in> set p \<and> CHR ''/'' \<notin> set ext \<and>
            list_ex (\<lambda>c. c \<noteq> CHR ''.'') (os_path_basename root)
         then (root, CHR ''.'' # ext) else (p, []))"

definition os_path_join :: "string \<Rightarrow> string \<Rightarrow> string" where
  "os_path_join a b =
     (if b \<noteq> [] \<and> hd b = CHR ''/'' then b
      else if a = [] \<or> last a = CHR ''/'' then a @ b
      else a @ ''/'' @ b)"

text \<open>
  \<^verbatim>\<open>os.fspath\<close>, the first step of \<^verbatim>\<open>os.path.basename\<close>: a value that is not a
  string raises \<^verbatim>\<open>TypeError\<close>.
\<close>

fun os_fspath :: "pyval \<Rightarrow> exn + string" where
  "os_fspath (PStr s) = Inr s"
| "os_fspath _ = Inl TypeError"

subsection \<open>The local file system and the calls to the collaborators\<close>

datatype node = File | Dir

datatype call =
    Download string string string
  | Upload string string string
  | Run "string list"

record world =
  fs :: "(string \<times> node) list"
  calls :: "call list"

text \<open>\<open>entry_of d p\<close>: the path \<open>p\<close> names an entry directly inside directory \<open>d\<close>.\<close>

definition entry_name :: "string \<Rightarrow> string \<Rightarrow> string" where
  "entry_name d p = drop (Suc (length d)) p"

definition entry_of :: "string \<Rightarrow> string \<Rightarrow> bool" where
  "entry_of d p \<longleftrightarrow>
     take (Suc (length d)) p = d @ ''/'' \<and> entry_name d p \<noteq> [] \<and>
     CHR ''/'' \<notin> set (entry_name d p)"

definition listdir :: "string \<Rightarrow> (string \<times> node) list \<Rightarrow> string list" where
  "listdir d f = filter (entry_of d) (map fst f)"

definition os_path_exists :: "string \<Rightarrow> world \<Rightarrow> bool" where
  "os_path_exists p w \<longleftrightarrow> map_of (fs w) p \<noteq> None"

text \<open>\<^verbatim>\<open>os.makedirs(path, exist_ok=True)\<close>; the parent \<^verbatim>\<open>/tmp\<close> is taken to exist.\<close>

definition os_makedirs :: "string \<Rightarrow> world \<Rightarrow> exn + world" where
  "os_makedirs p w =
     (case map_of (fs w) p of
        None \<Rightarrow> Inr (w\<lparr>fs := fs w @ [(p, Dir)]\<rparr>)
      | Some Dir \<Rightarrow> Inr w
      | Some File \<Rightarrow> Inl (OSError ''EEXIST''))"

definition os_remove :: "string \<Rightarrow> world \<Rightarrow> exn + world" where
  "os_remove p w =
     (case map_of (fs w) p of
        None \<Rightarrow> Inl (OSError ''ENOENT'')
      | Some Dir \<Rightarrow> Inl (OSError ''EISDIR'')
      | Some File \<Rightarrow> Inr (w\<lparr>fs := filter (\<lambda>e. fst e \<noteq> p) (fs w)\<rparr>))"

definition os_rmdir :: "string \<Rightarrow> world \<Rightarrow> exn + world" where
  "os_rmdir p w =
     (case map_of (fs w) p of
        None \<Rightarrow> Inl (OSError ''ENOENT'')
      | Some File \<Rightarrow> Inl (OSError ''ENOTDIR'')
      | Some Dir \<Rightarrow>
          if listdir p (fs w) = [] then Inr (w\<lparr>fs := filter (\<lambda>e. fst e \<noteq> p) (fs w)\<rparr>)
          else Inl (OSError ''ENOTEMPTY''))"

text \<open>
  \<^verbatim>\<open>glob(f"{dir_path}/*")\<close> and \<^verbatim>\<open>glob(os.path.join(output_dir, 'thumb_*.jpg'))\<close>.
  The directory part holds no pattern character (it is \<^verbatim>\<open>/tmp/\<close>, a UUID and a
  fixed suffix), so \<^verbatim>\<open>glob\<close> lists that one directory, drops the names that start
  with a dot (no pattern here starts with one) and keeps the names that match the
  last component. A path that is not a directory lists as nothing.
\<close>

definition hidden :: "string \<Rightarrow> bool" where
  "hidden name \<longleftrightarrow> name \<noteq> [] \<and> hd name = CHR ''.''"

definition fnmatch_thumb :: "string \<Rightarrow> bool" where
  "fnmatch_thumb name \<longleftrightarrow>
     10 \<le> length name \<and> take 6 name = ''thumb_'' \<and> drop (length name - 4) name = ''.jpg''"

definition glob_in :: "string \<Rightarrow> (string \<Rightarrow> bool) \<Rightarrow> world \<Rightarrow> string list" where
  "glob_in d matches w =
     (if map_of (fs w) d = Some Dir
      then filter (\<lambda>p. \<not> hidden (entry_name d p) \<and> matches (entry_name d p)) (listdir d (fs w))
      else [])"

text \<open>A collaborator writing a file: the path becomes a file unless it is there already.\<close>

definition write_file :: "string \<Rightarrow> world \<Rightarrow> world" where
  "write_file p w = (if map_of (fs w) p = None then w\<lparr>fs := fs w @ [(p, File)]\<rparr> else w)"

fun write_files :: "string list \<Rightarrow> world \<Rightarrow> world" where
  "write_files [] w = w"
| "write_files (p # ps) w = write_files ps (write_file p w)"

definition record_call :: "call \<Rightarrow> world \<Rightarrow> world" where
  "record_call c w = w\<lparr>calls := calls w @ [c]\<rparr>"

subsection \<open>The collaborators\<close>

text \<open>
  What the collaborators do in one job. \<open>uuid4\<close> is the text of the identifier
  drawn. \<open>download_raises\<close> is \<open>None\<close> when the object is fetched into the file
  named, and the message of the exception otherwise. An \<^verbatim>\<open>ffmpeg\<close> run has an exit
  status and may or may not leave its output file; the thumbnail run leaves the
  frames numbered from 1 under the pattern \<^verbatim>\<open>thumb_%03d.jpg\<close>. \<open>upload_raises\<close>
  says for each object key whether its upload raises.
\<close>

record collab =
  uuid4 :: string
  download_raises :: "string option"
  transcode_status :: int
  transcode_writes :: bool
  thumbnail_status :: int
  thumbnail_frames :: nat
  upload_raises :: "string \<Rightarrow> string option"

definition s3_download_file ::
  "collab \<Rightarrow> string \<Rightarrow> string \<Rightarrow> string \<Rightarrow> world \<Rightarrow> (exn + unit) \<times> world" where
  "s3_download_file c bucket key filename w =
     (let w1 = record_call (Download bucket key filename) w
      in case download_raises c of
           Some m \<Rightarrow> (Inl (StorageError m), w1)
         | None \<Rightarrow> (Inr (), write_file filename w1))"

definition s3_upload_file ::
  "collab \<Rightarrow> string \<Rightarrow> string \<Rightarrow> string \<Rightarrow> world \<Rightarrow> (exn + unit) \<times> world" where
  "s3_upload_file c filename bucket key w =
     (let w1 = record_call (Upload filename bucket key) w
      in case upload_raises c key of
           Some m \<Rightarrow> (Inl (StorageError m), w1)
         | None \<Rightarrow> (Inr (), w1))"

text \<open>\<^verbatim>\<open>subprocess.run(command, check=True)\<close>: a non-zero exit status raises.\<close>

definition subprocess_run ::
  "string list \<Rightarrow> int \<Rightarrow> string list \<Rightarrow> world \<Rightarrow> (exn + unit) \<times> world" where
  "subprocess_run command status written w =
     (let w1 = write_files written (record_call (Run command) w)
      in if status \<noteq> 0 then (Inl (CalledProcessError status command), w1)
         else (Inr (), w1))"

text \<open>The C format \<^verbatim>\<open>%03d\<close> of a frame number: decimal, zero-padded to width 3.\<close>

definition digit :: "nat \<Rightarrow> char" where
  "digit d = char_of (48 + d)"

fun decimal :: "nat \<Rightarrow> string" where
  "decimal n = (if n < 10 then [digit n] else decimal (n div 10) @ [digit (n mod 10)])"

definition printf_03d :: "nat \<Rightarrow> string" where
  "printf_03d n = replicate (3 - length (decimal n)) CHR ''0'' @ decimal n"

definition frame_file :: "string \<Rightarrow> nat \<Rightarrow> string" where
  "frame_file output_dir i = os_path_join output_dir (''thumb_'' @ printf_03d i @ ''.jpg'')"

subsection \<open>The stages (lines 39-95)\<close>

definition transcode_to_mp4 ::
  "collab \<Rightarrow> string \<Rightarrow> string \<Rightarrow> world \<Rightarrow> (exn + unit) \<times> world" where
  "transcode_to_mp4 c input_path output_path w =
     (let command = [''ffmpeg'', ''-i'', input_path, ''-c:v'', ''libx264'', ''-preset'', ''fast'',
                     ''-c:a'', ''aac'', ''-b:a'', ''128k'', ''-movflags'', ''+faststart'',
                     output_path]
      in subprocess_run command (transcode_status c)
           (if transcode_writes c then [output_path] else []) w)"

definition generate_thumbnails ::
  "collab \<Rightarrow> string \<Rightarrow> string \<Rightarrow> world \<Rightarrow> (exn + string list) \<times> world" where
  "generate_thumbnails c input_path output_dir w =
     (let output_pattern = os_path_join output_dir ''thumb_%03d.jpg'';
          command = [''ffmpeg'', ''-i'', input_path, ''-vf'', ''fps=1/10'', ''-q:v'', ''3'',
                     output_pattern]
      in case subprocess_run command (thumbnail_status c)
                (map (frame_file output_dir) [1..<Suc (thumbnail_frames c)]) w of
           (Inl e, w1) \<Rightarrow> (Inl e, w1)
         | (Inr _, w1) \<Rightarrow> (Inr (sort (glob_in output_dir fnmatch_thumb w1)), w1))"

definition analyze_thumbnails_ai :: "string list \<Rightarrow> (string \<times> string) list" where
  "analyze_thumbnails_ai thumbnail_paths =
     [(''status'', ''pending''),
      (''message'', ''AI analysis will be implemented in the future.'')]"

subsection \<open>The handler (lines 98-186)\<close>

text \<open>The loop of lines 152-158, with the key list built so far as accumulator.\<close>

fun upload_thumbnails ::
  "collab \<Rightarrow> string \<Rightarrow> string \<Rightarrow> string list \<Rightarrow> string list \<Rightarrow> world
     \<Rightarrow> (exn + string list) \<times> world" where
  "upload_thumbnails c bucket s3_output_prefix [] s3_thumbnail_keys w =
     (Inr s3_thumbnail_keys, w)"
| "upload_thumbnails c bucket s3_output_prefix (thumb_path # rest) s3_thumbnail_keys w =
     (let thumb_filename = os_path_basename thumb_path;
          s3_thumb_key = s3_output_prefix @ ''/thumbnails/'' @ thumb_filename
      in case s3_upload_file c thumb_path bucket s3_thumb_key w of
           (Inl e, w1) \<Rightarrow> (Inl e, w1)
         | (Inr _, w1) \<Rightarrow>
             upload_thumbnails c bucket s3_output_prefix rest
               (s3_thumbnail_keys @ [s3_thumb_key]) w1)"

definition environ_get :: "environ \<Rightarrow> string \<Rightarrow> string \<Rightarrow> string" where
  "environ_get environ k dflt = (case environ k of None \<Rightarrow> dflt | Some v \<Rightarrow> v)"

text \<open>The body of the \<^verbatim>\<open>try\<close> statement, lines 127-171.\<close>

definition handler_body ::
  "config \<Rightarrow> environ \<Rightarrow> collab \<Rightarrow> string \<Rightarrow> string \<Rightarrow> string \<Rightarrow> string \<Rightarrow> string \<Rightarrow> string
     \<Rightarrow> world \<Rightarrow> (exn + response) \<times> world" where
  "handler_body cfg environ c job_id source_video_key local_input_path transcoded_filename
       local_transcoded_path local_output_dir w =
     (case s3_download_file c (S3_BUCKET_NAME cfg) source_video_key local_input_path w of
        (Inl e, w1) \<Rightarrow> (Inl e, w1)
      | (Inr _, w1) \<Rightarrow>
     (case transcode_to_mp4 c local_input_path local_transcoded_path w1 of
        (Inl e, w2) \<Rightarrow> (Inl e, w2)
      | (Inr _, w2) \<Rightarrow>
     (case generate_thumbnails c local_transcoded_path local_output_dir w2 of
        (Inl e, w3) \<Rightarrow> (Inl e, w3)
      | (Inr thumbnail_paths, w3) \<Rightarrow>
     (let ai_results = analyze_thumbnails_ai thumbnail_paths;
          s3_output_prefix = ''processed/'' @ job_id;
          s3_transcoded_key = s3_output_prefix @ ''/'' @ transcoded_filename
      in case s3_upload_file c local_transcoded_path (S3_BUCKET_NAME cfg) s3_transcoded_key w3 of
           (Inl e, w4) \<Rightarrow> (Inl e, w4)
         | (Inr _, w4) \<Rightarrow>
        (case upload_thumbnails c (S3_BUCKET_NAME cfg) s3_output_prefix thumbnail_paths [] w4 of
           (Inl e, w5) \<Rightarrow> (Inl e, w5)
         | (Inr s3_thumbnail_keys, w5) \<Rightarrow>
             (Inr (Success s3_transcoded_key s3_thumbnail_keys ai_results
                     (environ_get environ ''CLOUDFLARE_R2_PUBLIC_URL''
                        ''https://YOUR-PUBLIC-URL.dev'' @ ''/'' @ s3_output_prefix)),
              w5))))))"

text \<open>The inner loop of the \<^verbatim>\<open>finally\<close> clause, lines 183-184.\<close>

fun remove_all :: "string list \<Rightarrow> world \<Rightarrow> (exn + unit) \<times> world" where
  "remove_all [] w = (Inr (), w)"
| "remove_all (f # rest) w =
     (case os_remove f w of Inl e \<Rightarrow> (Inl e, w) | Inr w1 \<Rightarrow> remove_all rest w1)"

text \<open>The \<^verbatim>\<open>finally\<close> clause, lines 181-185.\<close>

fun cleanup :: "string list \<Rightarrow> world \<Rightarrow> (exn + unit) \<times> world" where
  "cleanup [] w = (Inr (), w)"
| "cleanup (dir_path # rest) w =
     (if os_path_exists dir_path w then
        (case remove_all (glob_in dir_path (\<lambda>name. True) w) w of
           (Inl e, w1) \<Rightarrow> (Inl e, w1)
         | (Inr _, w1) \<Rightarrow>
            (case os_rmdir dir_path w1 of
               Inl e \<Rightarrow> (Inl e, w1)
             | Inr w2 \<Rightarrow> cleanup rest w2))
      else cleanup rest w)"

definition local_input_dir :: "string \<Rightarrow> string" where
  "local_input_dir job_id = ''/tmp/'' @ job_id @ ''_input''"

definition local_output_dir :: "string \<Rightarrow> string" where
  "local_output_dir job_id = ''/tmp/'' @ job_id @ ''_output''"

definition misconfigured :: response where
  "misconfigured = Error (Literal ''Server is misconfigured. Missing R2 environment variables.'')"

definition missing_key :: response where
  "missing_key = Error (Literal ''Missing 'source_video_key' in job input.'')"

text \<open>
  \<open>handler\<close>: the first argument is the module state left by the import (\<open>None\<close>
  when \<^verbatim>\<open>S3_ENDPOINT_URL\<close> is \<^verbatim>\<open>None\<close> and \<^verbatim>\<open>s3\<close> was never bound). \<open>Inl e\<close> is an
  exception that leaves \<^verbatim>\<open>handler\<close>; \<open>Inr r\<close> is the response returned. An exception
  raised in the \<^verbatim>\<open>finally\<close> clause replaces the pending return value.
\<close>

definition handler ::
  "config option \<Rightarrow> environ \<Rightarrow> collab \<Rightarrow> pyval \<Rightarrow> world \<Rightarrow> (exn + response) \<times> world" where
  "handler module environ c job w =
     (case module of
        None \<Rightarrow> (Inr misconfigured, w)
      | Some cfg \<Rightarrow>
     (case py_getitem job ''input'' of
        Inl e \<Rightarrow> (Inl e, w)
      | Inr job_input \<Rightarrow>
     (case py_getitem job_input ''source_video_key'' of
        Inl (KeyError k) \<Rightarrow> (Inr missing_key, w)
      | Inl e \<Rightarrow> (Inl e, w)
      | Inr source_video_key \<Rightarrow>
     (let job_id = uuid4 c
      in case os_makedirs (local_input_dir job_id) w of
           Inl e \<Rightarrow> (Inl e, w)
         | Inr w1 \<Rightarrow>
        (case os_makedirs (local_output_dir job_id) w1 of
           Inl e \<Rightarrow> (Inl e, w1)
         | Inr w2 \<Rightarrow>
        (case os_fspath source_video_key of
           Inl e \<Rightarrow> (Inl e, w2)
         | Inr key \<Rightarrow>
        (let local_input_path = os_path_join (local_input_dir job_id) (os_path_basename key);
             transcoded_filename =
               fst (os_path_splitext (os_path_basename key)) @ ''_processed.mp4'';
             local_transcoded_path = os_path_join (local_output_dir job_id) transcoded_filename;
             (result, w3) =
                handler_body cfg environ c job_id key local_input_path transcoded_filename
                  local_transcoded_path (local_output_dir job_id) w2;
             response = (case result of Inl e \<Rightarrow> Error (str_of e) | Inr r \<Rightarrow> r)
         in case cleanup [local_input_dir job_id, local_output_dir job_id] w3 of
              (Inl e, w4) \<Rightarrow> (Inl e, w4)
            | (Inr _, w4) \<Rightarrow> (Inr response, w4))))))))"

subsection \<open>Sample jobs\<close>

definition r2_environ :: environ where
  "r2_environ =
     [''CLOUDFLARE_ACCOUNT_ID'' \<mapsto> ''acct'',
      ''CLOUDFLARE_R2_ACCESS_KEY_ID'' \<mapsto> ''id'',
      ''CLOUDFLARE_R2_SECRET_ACCESS_KEY'' \<mapsto> ''secret'',
      ''CLOUDFLARE_R2_BUCKET_NAME'' \<mapsto> ''media'']"

definition r2_config :: config where
  "r2_config = \<lparr>S3_ENDPOINT_URL = ''https://acct.r2.cloudflarestorage.com'',
                 S3_BUCKET_NAME = ''media''\<rparr>"

text \<open>Every collaborator succeeds; the clip is long enough for two thumbnails.\<close>

definition all_fine :: collab where
  "all_fine =
     \<lparr>uuid4 = ''6f1c'', download_raises = None, transcode_status = 0, transcode_writes = True,
      thumbnail_status = 0, thumbnail_frames = 2, upload_raises = (\<lambda>k. None)\<rparr>"

definition empty_world :: world where
  "empty_world = \<lparr>fs = [], calls = []\<rparr>"

definition job_for :: "pyval \<Rightarrow> pyval" where
  "job_for v = PDict [(''id'', PStr ''job-1''), (''input'', PDict [(''source_video_key'', v)])]"

definition hidden_clip_job :: pyval where
  "hidden_clip_job = job_for (PStr ''videos/.clip.mov'')"

subsection \<open>Notions used in the statements\<close>

text \<open>
  The scratch names of a job are unused: neither directory exists and nothing is
  listed under either name. A fresh UUID makes this so.
\<close>

definition fresh_scratch :: "string \<Rightarrow> world \<Rightarrow> bool" where
  "fresh_scratch job_id w \<longleftrightarrow>
     map_of (fs w) (local_input_dir job_id) = None \<and>
     map_of (fs w) (local_output_dir job_id) = None \<and>
     listdir (local_input_dir job_id) (fs w) = [] \<and>
     listdir (local_output_dir job_id) (fs w) = []"

text \<open>The world after lines 119-120 when the scratch names were unused.\<close>

definition scratch_ready :: "string \<Rightarrow> world \<Rightarrow> world" where
  "scratch_ready job_id w =
     w\<lparr>fs := fs w @ [(local_input_dir job_id, Dir), (local_output_dir job_id, Dir)]\<rparr>"

text \<open>
  The \<^verbatim>\<open>try\<close> block as the handler runs it for a key, with the paths of lines
  122-124, from the world in which both scratch directories were just created.
\<close>

definition try_block ::
  "config \<Rightarrow> environ \<Rightarrow> collab \<Rightarrow> string \<Rightarrow> world \<Rightarrow> (exn + response) \<times> world" where
  "try_block cfg environ c key w =
     handler_body cfg environ c (uuid4 c) key
       (os_path_join (local_input_dir (uuid4 c)) (os_path_basename key))
       (fst (os_path_splitext (os_path_basename key)) @ ''_processed.mp4'')
       (os_path_join (local_output_dir (uuid4 c))
          (fst (os_path_splitext (os_path_basename key)) @ ''_processed.mp4''))
       (local_output_dir (uuid4 c)) (scratch_ready (uuid4 c) w)"

text \<open>
  The Thumbnail Set of a job: the value \<^verbatim>\<open>thumbnail_paths\<close> of line 138, that is what
  \<open>generate_thumbnails\<close> returns in the world left by the download and the
  transcoder.
\<close>

definition thumbnail_set :: "config \<Rightarrow> collab \<Rightarrow> string \<Rightarrow> world \<Rightarrow> exn + string list" where
  "thumbnail_set cfg c key w =
     (let local_input_path = os_path_join (local_input_dir (uuid4 c)) (os_path_basename key);
          local_transcoded_path =
            os_path_join (local_output_dir (uuid4 c))
              (fst (os_path_splitext (os_path_basename key)) @ ''_processed.mp4'');
          w1 = snd (s3_download_file c (S3_BUCKET_NAME cfg) key local_input_path
                      (scratch_ready (uuid4 c) w));
          w2 = snd (transcode_to_mp4 c local_input_path local_transcoded_path w1)
      in fst (generate_thumbnails c local_transcoded_path (local_output_dir (uuid4 c)) w2))"

text \<open>The object key of a thumbnail, line 155.\<close>

definition thumbnail_key :: "string \<Rightarrow> string \<Rightarrow> string" where
  "thumbnail_key job_id thumb_path =
     ''processed/'' @ job_id @ ''/thumbnails/'' @ os_path_basename thumb_path"

text \<open>
  Two invariants of the proofs. A directory is \<open>tidy\<close> when it exists, is listed
  without repetition and holds only files that the pattern \<^verbatim>\<open>*\<close> matches; a path is
  \<open>okp\<close> for a directory when writing it keeps the directory tidy.
\<close>

definition tidy :: "string \<Rightarrow> world \<Rightarrow> bool" where
  "tidy d w \<longleftrightarrow>
     map_of (fs w) d = Some Dir \<and> distinct (listdir d (fs w)) \<and>
     (\<forall>e \<in> set (fs w). entry_of d (fst e) \<longrightarrow> snd e = File \<and> \<not> hidden (entry_name d (fst e)))"

definition okp :: "string \<Rightarrow> string \<Rightarrow> bool" where
  "okp d p \<longleftrightarrow> (entry_of d p \<longrightarrow> \<not> hidden (entry_name d p))"

declare decimal.simps [simp del]

section \<open>Properties\<close>

subsection \<open>Helper facts\<close>

lemma map_of_filter_fst:
  "map_of (filter (\<lambda>e. P (fst e)) xs) k = (if P k then map_of xs k else None)"
  by (induction xs) auto

lemma entry_of_iff: "entry_of d p \<longleftrightarrow> (\<exists>n. p = d @ ''/'' @ n \<and> n \<noteq> [] \<and> CHR ''/'' \<notin> set n)"
proof
  assume e: "entry_of d p"
  have "p = take (Suc (length d)) p @ drop (Suc (length d)) p"
    by simp
  with e have "p = d @ ''/'' @ entry_name d p"
    by (simp add: entry_of_def entry_name_def)
  with e show "\<exists>n. p = d @ ''/'' @ n \<and> n \<noteq> [] \<and> CHR ''/'' \<notin> set n"
    unfolding entry_of_def by blast
next
  assume "\<exists>n. p = d @ ''/'' @ n \<and> n \<noteq> [] \<and> CHR ''/'' \<notin> set n"
  then show "entry_of d p"
    by (auto simp: entry_of_def entry_name_def)
qed

lemma entry_name_append [simp]: "entry_name d (d @ CHR ''/'' # n) = n"
  by (simp add: entry_name_def)

lemma entry_of_append [simp]:
  "entry_of d (d @ CHR ''/'' # n) \<longleftrightarrow> n \<noteq> [] \<and> CHR ''/'' \<notin> set n"
  by (auto simp: entry_of_def entry_name_def)

lemma not_entry_of_self [simp]: "\<not> entry_of d d"
  by (simp add: entry_of_def)

lemma remove_all_files:
  "distinct ps \<Longrightarrow> \<forall>p \<in> set ps. map_of (fs w) p = Some File \<Longrightarrow>
   remove_all ps w = (Inr (), w\<lparr>fs := filter (\<lambda>e. fst e \<notin> set ps) (fs w)\<rparr>)"
proof (induction ps arbitrary: w)
  case Nil
  then show ?case by simp
next
  case (Cons p ps)
  let ?w1 = "w\<lparr>fs := filter (\<lambda>e. fst e \<noteq> p) (fs w)\<rparr>"
  have r: "os_remove p w = Inr ?w1"
    using Cons.prems by (simp add: os_remove_def)
  have "\<forall>q \<in> set ps. map_of (fs ?w1) q = Some File"
    using Cons.prems by (auto simp: map_of_filter_fst [where P = "\<lambda>q. q \<noteq> p"])
  with Cons.IH [of ?w1] Cons.prems(1)
  have "remove_all ps ?w1 = (Inr (), ?w1\<lparr>fs := filter (\<lambda>e. fst e \<notin> set ps) (fs ?w1)\<rparr>)"
    by simp
  moreover have "filter (\<lambda>e. fst e \<notin> set ps) (filter (\<lambda>e. fst e \<noteq> p) (fs w)) =
      filter (\<lambda>e. fst e \<notin> set (p # ps)) (fs w)"
    by (auto intro: filter_cong)
  ultimately show ?case
    using r by simp
qed

lemma map_of_tidy_entry:
  assumes "tidy d w" and "p \<in> set (listdir d (fs w))"
  shows "map_of (fs w) p = Some File"
proof -
  from assms(2) obtain k where k: "(p, k) \<in> set (fs w)" and e: "entry_of d p"
    by (auto simp: listdir_def)
  then obtain k' where m: "map_of (fs w) p = Some k'"
    by (metis weak_map_of_SomeI)
  then have "(p, k') \<in> set (fs w)"
    by (rule map_of_SomeD)
  with assms(1) e have "k' = File"
    by (auto simp: tidy_def)
  with m show ?thesis by simp
qed

lemma cleanup_tidy:
  assumes "tidy d w"
  shows "cleanup (d # rest) w =
           cleanup rest (w\<lparr>fs := filter (\<lambda>e. fst e \<noteq> d \<and> \<not> entry_of d (fst e)) (fs w)\<rparr>)"
proof -
  let ?ps = "glob_in d (\<lambda>name. True) w"
  from assms have dir: "map_of (fs w) d = Some Dir"
    by (simp add: tidy_def)
  have vis: "\<forall>p \<in> set (listdir d (fs w)). \<not> hidden (entry_name d p)"
    using assms by (auto simp: tidy_def listdir_def)
  then have ps: "?ps = listdir d (fs w)"
    using dir by (simp add: glob_in_def)
  have dist: "distinct ?ps"
    using assms ps by (simp add: tidy_def)
  have files: "\<forall>p \<in> set ?ps. map_of (fs w) p = Some File"
    using ps map_of_tidy_entry [OF assms] by simp
  let ?w1 = "w\<lparr>fs := filter (\<lambda>e. fst e \<notin> set ?ps) (fs w)\<rparr>"
  have rm: "remove_all ?ps w = (Inr (), ?w1)"
    by (rule remove_all_files [OF dist files])
  have notin: "d \<notin> set ?ps"
    by (simp add: ps listdir_def)
  have dir1: "map_of (fs ?w1) d = Some Dir"
    using dir notin by (simp add: map_of_filter_fst [where P = "\<lambda>q. q \<notin> set ?ps"])
  have empty: "listdir d (fs ?w1) = []"
    by (auto simp: ps listdir_def filter_empty_conv)
  have "filter (\<lambda>e. fst e \<noteq> d) (fs ?w1) =
      filter (\<lambda>e. fst e \<noteq> d \<and> \<not> entry_of d (fst e)) (fs w)"
    by (auto simp: ps listdir_def intro: filter_cong)
  then have "os_rmdir d ?w1 =
      Inr (w\<lparr>fs := filter (\<lambda>e. fst e \<noteq> d \<and> \<not> entry_of d (fst e)) (fs w)\<rparr>)"
    using dir1 empty by (simp add: os_rmdir_def)
  then show ?thesis
    using dir rm by (simp add: os_path_exists_def)
qed

lemma listdir_append: "listdir d (xs @ ys) = listdir d xs @ listdir d ys"
  by (simp add: listdir_def)

lemma tidy_write_file:
  assumes "tidy d w" and "okp d p"
  shows "tidy d (write_file p w)"
proof (cases "map_of (fs w) p = None")
  case False
  then show ?thesis using assms(1) by (auto simp: write_file_def)
next
  case True
  then have new: "p \<notin> set (map fst (fs w))"
    by (simp add: map_of_eq_None_iff)
  then have "p \<notin> set (listdir d (fs w))"
    by (simp add: listdir_def)
  with assms True show ?thesis
    by (auto simp: tidy_def write_file_def okp_def listdir_append listdir_def map_add_def)
qed

lemma tidy_write_files:
  "tidy d w \<Longrightarrow> \<forall>p \<in> set ps. okp d p \<Longrightarrow> tidy d (write_files ps w)"
  by (induction ps arbitrary: w) (simp_all add: tidy_write_file)

lemma tidy_record_call: "tidy d w \<Longrightarrow> tidy d (record_call x w)"
  by (simp add: tidy_def record_call_def)

lemma tidy_download:
  "tidy d w \<Longrightarrow> okp d filename \<Longrightarrow> tidy d (snd (s3_download_file c bucket key filename w))"
  by (simp add: s3_download_file_def Let_def tidy_record_call tidy_write_file split: option.splits)

lemma tidy_upload:
  "tidy d w \<Longrightarrow> tidy d (snd (s3_upload_file c filename bucket key w))"
  by (simp add: s3_upload_file_def Let_def tidy_record_call split: option.splits)

lemma tidy_subprocess_run:
  "tidy d w \<Longrightarrow> \<forall>p \<in> set written. okp d p \<Longrightarrow>
   tidy d (snd (subprocess_run command status written w))"
  by (simp add: subprocess_run_def Let_def tidy_record_call tidy_write_files)

lemma tidy_transcode:
  "tidy d w \<Longrightarrow> okp d output_path \<Longrightarrow> tidy d (snd (transcode_to_mp4 c input_path output_path w))"
  by (simp add: transcode_to_mp4_def Let_def tidy_subprocess_run)

lemma tidy_thumbnails:
  assumes "tidy d w" and "\<forall>i. okp d (frame_file output_dir i)"
  shows "tidy d (snd (generate_thumbnails c input_path output_dir w))"
proof -
  define written where "written = map (frame_file output_dir) [1..<Suc (thumbnail_frames c)]"
  define command where "command = [''ffmpeg'', ''-i'', input_path, ''-vf'', ''fps=1/10'',
      ''-q:v'', ''3'', os_path_join output_dir ''thumb_%03d.jpg'']"
  have "\<forall>p \<in> set written. okp d p"
    using assms(2) by (simp add: written_def)
  from tidy_subprocess_run [OF assms(1) this]
  have "tidy d (snd (subprocess_run command (thumbnail_status c) written w))" .
  moreover have "snd (generate_thumbnails c input_path output_dir w) =
      snd (subprocess_run command (thumbnail_status c) written w)"
    unfolding generate_thumbnails_def Let_def written_def [symmetric] command_def [symmetric]
    by (simp split: prod.splits sum.splits)
  ultimately show ?thesis by simp
qed

lemma tidy_upload_thumbnails:
  "tidy d w \<Longrightarrow> tidy d (snd (upload_thumbnails c bucket prefix paths keys w))"
proof (induction paths arbitrary: keys w)
  case Nil
  then show ?case by simp
next
  case (Cons p paths)
  from tidy_upload [OF Cons.prems]
  have "tidy d (snd (s3_upload_file c p bucket (prefix @ ''/thumbnails/'' @ os_path_basename p) w))" .
  with Cons.IH show ?case
    by (auto simp: Let_def split: prod.splits sum.splits)
qed

lemma tidy_handler_body:
  assumes "tidy d w" and "okp d local_input_path" and "okp d local_transcoded_path"
    and "\<forall>i. okp d (frame_file output_dir i)"
  shows "tidy d (snd (handler_body cfg environ c job_id key local_input_path transcoded_filename
                        local_transcoded_path output_dir w))"
proof -
  note t1 = tidy_download [OF assms(1,2), of c "S3_BUCKET_NAME cfg" key]
  show ?thesis
  proof (cases "s3_download_file c (S3_BUCKET_NAME cfg) key local_input_path w")
    case (Pair r1 w1)
    with t1 have i1: "tidy d w1" by simp
    note t2 = tidy_transcode [OF i1 assms(3), of c local_input_path]
    show ?thesis
    proof (cases "transcode_to_mp4 c local_input_path local_transcoded_path w1")
      case p2: (Pair r2 w2)
      with t2 have i2: "tidy d w2" by simp
      note t3 = tidy_thumbnails [OF i2 assms(4), of c local_transcoded_path]
      show ?thesis
      proof (cases "generate_thumbnails c local_transcoded_path output_dir w2")
        case p3: (Pair r3 w3)
        with t3 have i3: "tidy d w3" by simp
        show ?thesis
        proof (cases "s3_upload_file c local_transcoded_path (S3_BUCKET_NAME cfg)
            ((''processed/'' @ job_id) @ ''/'' @ transcoded_filename) w3")
          case p4: (Pair r4 w4)
          with tidy_upload [OF i3, of c local_transcoded_path "S3_BUCKET_NAME cfg"
              "(''processed/'' @ job_id) @ ''/'' @ transcoded_filename"]
          have i4: "tidy d w4" by simp
          have i5: "tidy d w5"
            if "upload_thumbnails c (S3_BUCKET_NAME cfg) (''processed/'' @ job_id) ps [] w4 = (r5, w5)"
            for ps r5 w5
            using tidy_upload_thumbnails [OF i4, of c "S3_BUCKET_NAME cfg" "''processed/'' @ job_id" ps "[]"]
              that by simp
          from Pair p2 p3 p4 i1 i2 i3 i4 i5 show ?thesis
            by (auto simp: handler_body_def Let_def split: prod.splits sum.splits)
        qed
      qed
    qed
  qed
qed

lemma basename_no_slash: "CHR ''/'' \<notin> set (os_path_basename p)"
  by (auto simp: os_path_basename_def dest: set_takeWhileD)

lemma join_input_dir:
  "n = [] \<or> hd n \<noteq> CHR ''/'' \<Longrightarrow>
   os_path_join (local_input_dir j) n = local_input_dir j @ CHR ''/'' # n"
  by (auto simp: os_path_join_def local_input_dir_def)

lemma join_output_dir:
  "n = [] \<or> hd n \<noteq> CHR ''/'' \<Longrightarrow>
   os_path_join (local_output_dir j) n = local_output_dir j @ CHR ''/'' # n"
  by (auto simp: os_path_join_def local_output_dir_def)

lemma dirs_differ [simp]:
  "local_input_dir j \<noteq> local_output_dir j"
  "local_output_dir j \<noteq> local_input_dir j"
  by (simp_all add: local_input_dir_def local_output_dir_def)

lemma not_entry_across [simp]:
  "\<not> entry_of (local_output_dir j) (local_input_dir j @ CHR ''/'' # n)"
  "\<not> entry_of (local_input_dir j) (local_output_dir j @ CHR ''/'' # n)"
  "\<not> entry_of (local_output_dir j) (local_input_dir j)"
  "\<not> entry_of (local_input_dir j) (local_output_dir j)"
  by (simp_all add: entry_of_iff local_input_dir_def local_output_dir_def)

lemma splitext_prefix: "\<exists>k. fst (os_path_splitext p) = take k p"
proof -
  have "fst (os_path_splitext p) =
          take (length p - length (rev (takeWhile (\<lambda>c. c \<noteq> CHR ''.'') (rev p))) - 1) p \<or>
        fst (os_path_splitext p) = take (length p) p"
    by (simp add: os_path_splitext_def Let_def)
  then show ?thesis by blast
qed

lemma transcoded_filename_hd:
  "hd (fst (os_path_splitext p) @ ''_processed.mp4'') = CHR ''_'' \<or>
   (p \<noteq> [] \<and> hd (fst (os_path_splitext p) @ ''_processed.mp4'') = hd p)"
proof -
  obtain k where k: "fst (os_path_splitext p) = take k p"
    using splitext_prefix by blast
  show ?thesis
  proof (cases "take k p")
    case Nil
    with k show ?thesis by simp
  next
    case (Cons a as)
    then have "p \<noteq> []" and "hd (take k p) = hd p"
      by (cases p; cases k; simp)+
    with k Cons show ?thesis by simp
  qed
qed

lemma basename_hd: "os_path_basename p = [] \<or> hd (os_path_basename p) \<noteq> CHR ''/''"
  using basename_no_slash [of p] by (cases "os_path_basename p") auto

lemma okp_input_path:
  assumes "\<not> hidden (os_path_basename key)"
    and "d = local_input_dir j \<or> d = local_output_dir j"
  shows "okp d (os_path_join (local_input_dir j) (os_path_basename key))"
  using assms by (auto simp: okp_def join_input_dir [OF basename_hd])

lemma transcoded_filename_facts:
  assumes "\<not> hidden (os_path_basename key)"
  shows "hd (fst (os_path_splitext (os_path_basename key)) @ ''_processed.mp4'') \<noteq> CHR ''/''"
    and "\<not> hidden (fst (os_path_splitext (os_path_basename key)) @ ''_processed.mp4'')"
  using assms transcoded_filename_hd [of "os_path_basename key"] basename_hd [of key]
  by (auto simp: hidden_def)

lemma okp_transcoded_path:
  assumes "\<not> hidden (os_path_basename key)"
    and "d = local_input_dir j \<or> d = local_output_dir j"
  shows "okp d (os_path_join (local_output_dir j)
                  (fst (os_path_splitext (os_path_basename key)) @ ''_processed.mp4''))"
proof -
  let ?tf = "fst (os_path_splitext (os_path_basename key)) @ ''_processed.mp4''"
  have "os_path_join (local_output_dir j) ?tf = local_output_dir j @ CHR ''/'' # ?tf"
    using transcoded_filename_facts(1) [OF assms(1)] by (intro join_output_dir) blast
  then show ?thesis
    using assms(2) transcoded_filename_facts(2) [OF assms(1)] by (auto simp: okp_def)
qed

lemma frame_file_path:
  "frame_file (local_output_dir j) i = local_output_dir j @ ''/thumb_'' @ printf_03d i @ ''.jpg''"
  by (simp add: frame_file_def join_output_dir)

lemma okp_frame_file:
  "d = local_input_dir j \<or> d = local_output_dir j \<Longrightarrow> okp d (frame_file (local_output_dir j) i)"
  by (auto simp: okp_def frame_file_path hidden_def)

lemma tidy_scratch_ready:
  assumes "fresh_scratch j w"
  shows "tidy (local_input_dir j) (scratch_ready j w)"
    and "tidy (local_output_dir j) (scratch_ready j w)"
  using assms
  by (auto simp: tidy_def fresh_scratch_def scratch_ready_def listdir_def map_add_def
      filter_empty_conv)

lemma makedirs_fresh:
  assumes "fresh_scratch j w"
  shows "os_makedirs (local_input_dir j) w =
           Inr (w\<lparr>fs := fs w @ [(local_input_dir j, Dir)]\<rparr>)"
    and "os_makedirs (local_output_dir j) (w\<lparr>fs := fs w @ [(local_input_dir j, Dir)]\<rparr>) =
           Inr (scratch_ready j w)"
  using assms by (simp_all add: os_makedirs_def fresh_scratch_def scratch_ready_def map_add_def)

lemma tidy_after_other:
  assumes "tidy d w" and "d \<noteq> d'" and "\<not> entry_of d' d"
  shows "tidy d (w\<lparr>fs := filter (\<lambda>e. fst e \<noteq> d' \<and> \<not> entry_of d' (fst e)) (fs w)\<rparr>)"
proof -
  let ?P = "\<lambda>q. q \<noteq> d' \<and> \<not> entry_of d' q"
  have "map fst (filter (\<lambda>e. ?P (fst e)) (fs w)) = filter ?P (map fst (fs w))"
    by (simp add: filter_map comp_def)
  then have "listdir d (filter (\<lambda>e. ?P (fst e)) (fs w)) = filter ?P (listdir d (fs w))"
    by (auto simp: listdir_def intro: filter_cong)
  with assms show ?thesis
    by (auto simp: tidy_def map_of_filter_fst [where P = ?P])
qed

lemma handler_completes:
  assumes "py_getitem job ''input'' = Inr job_input"
    and "py_getitem job_input ''source_video_key'' = Inr (PStr key)"
    and "fresh_scratch (uuid4 c) w"
    and "\<not> hidden (os_path_basename key)"
  shows "\<exists>w'. handler (Some cfg) environ c job w =
           (Inr (case fst (try_block cfg environ c key w) of
                   Inl e \<Rightarrow> Error (str_of e) | Inr r \<Rightarrow> r), w') \<and>
         \<not> os_path_exists (local_input_dir (uuid4 c)) w' \<and>
         \<not> os_path_exists (local_output_dir (uuid4 c)) w' \<and>
         calls w' = calls (snd (try_block cfg environ c key w))"
proof -
  let ?j = "uuid4 c"
  let ?in = "local_input_dir ?j" and ?out = "local_output_dir ?j"
  let ?w3 = "snd (try_block cfg environ c key w)"
  let ?Pin = "\<lambda>q. q \<noteq> ?in \<and> \<not> entry_of ?in q"
  let ?Pout = "\<lambda>q. q \<noteq> ?out \<and> \<not> entry_of ?out q"
  let ?w4 = "?w3\<lparr>fs := filter (\<lambda>e. ?Pin (fst e)) (fs ?w3)\<rparr>"
  let ?w5 = "?w4\<lparr>fs := filter (\<lambda>e. ?Pout (fst e)) (fs ?w4)\<rparr>"
  have tin: "tidy ?in ?w3"
    unfolding try_block_def
    by (intro tidy_handler_body tidy_scratch_ready assms okp_input_path okp_transcoded_path
        allI okp_frame_file) simp_all
  have tout: "tidy ?out ?w3"
    unfolding try_block_def
    by (intro tidy_handler_body tidy_scratch_ready assms okp_input_path okp_transcoded_path
        allI okp_frame_file) simp_all
  have tout4: "tidy ?out ?w4"
    by (rule tidy_after_other [OF tout]) simp_all
  have "cleanup [?in, ?out] ?w3 = cleanup [?out] ?w4"
    by (rule cleanup_tidy [OF tin])
  also have "\<dots> = cleanup [] ?w5"
    by (rule cleanup_tidy [OF tout4])
  finally have cl: "cleanup [?in, ?out] ?w3 = (Inr (), ?w5)"
    by simp
  have h: "handler (Some cfg) environ c job w =
      (Inr (case fst (try_block cfg environ c key w) of
              Inl e \<Rightarrow> Error (str_of e) | Inr r \<Rightarrow> r), ?w5)"
    using assms(1,2) makedirs_fresh [OF assms(3)] cl
    by (simp add: handler_def Let_def try_block_def split_beta)
  have "map_of (fs ?w5) ?in = None" "map_of (fs ?w5) ?out = None"
    by (auto simp: map_of_eq_None_iff)
  with h show ?thesis
    by (simp add: os_path_exists_def)
qed

lemma upload_thumbnails_keys:
  "upload_thumbnails c bucket prefix paths keys w = (Inr ks, w') \<Longrightarrow>
   ks = keys @ map (\<lambda>p. prefix @ ''/thumbnails/'' @ os_path_basename p) paths"
proof (induction paths arbitrary: keys w)
  case Nil
  then show ?case by simp
next
  case (Cons p paths)
  define k where "k = prefix @ ''/thumbnails/'' @ os_path_basename p"
  obtain r1 w1 where up: "s3_upload_file c p bucket k w = (r1, w1)"
    by (cases "s3_upload_file c p bucket k w")
  from Cons.prems have "(case s3_upload_file c p bucket k w of
        (Inl e, w1) \<Rightarrow> (Inl e, w1)
      | (Inr u, w1) \<Rightarrow> upload_thumbnails c bucket prefix paths (keys @ [k]) w1) = (Inr ks, w')"
    unfolding upload_thumbnails.simps Let_def k_def .
  with up have rest: "upload_thumbnails c bucket prefix paths (keys @ [k]) w1 = (Inr ks, w')"
    by (cases r1) simp_all
  from Cons.IH [OF rest] show ?case
    by (simp add: k_def)
qed

lemma handler_body_success:
  assumes "handler_body cfg environ c job_id key lip tf ltp out w = (Inr r, w')"
  shows "\<exists>paths. fst (generate_thumbnails c ltp out
                      (snd (transcode_to_mp4 c lip ltp
                         (snd (s3_download_file c (S3_BUCKET_NAME cfg) key lip w))))) = Inr paths \<and>
           r = Success (''processed/'' @ job_id @ ''/'' @ tf)
                 (map (thumbnail_key job_id) paths) (analyze_thumbnails_ai paths)
                 (environ_get environ ''CLOUDFLARE_R2_PUBLIC_URL'' ''https://YOUR-PUBLIC-URL.dev''
                    @ ''/'' @ ''processed/'' @ job_id)"
  using assms
  by (auto simp: handler_body_def Let_def thumbnail_key_def split: prod.splits sum.splits
      dest!: upload_thumbnails_keys)

lemma handler_fresh_unfold:
  assumes "py_getitem job ''input'' = Inr job_input"
    and "py_getitem job_input ''source_video_key'' = Inr (PStr key)"
    and "fresh_scratch (uuid4 c) w"
  shows "handler (Some cfg) environ c job w =
           (let cl = cleanup [local_input_dir (uuid4 c), local_output_dir (uuid4 c)]
                       (snd (try_block cfg environ c key w))
            in case fst cl of
                 Inl e \<Rightarrow> (Inl e, snd cl)
               | Inr u \<Rightarrow>
                   (Inr (case fst (try_block cfg environ c key w) of
                           Inl e \<Rightarrow> Error (str_of e) | Inr r \<Rightarrow> r), snd cl))"
  using assms(1,2) makedirs_fresh [OF assms(3)] unfolding try_block_def
  by (simp add: handler_def Let_def split_beta del: cleanup.simps)

lemma handler_success_from_try_block:
  assumes "py_getitem job ''input'' = Inr job_input"
    and "py_getitem job_input ''source_video_key'' = Inr (PStr key)"
    and "fresh_scratch (uuid4 c) w"
    and "handler (Some cfg) environ c job w = (Inr (Success tk ths ai url), w')"
  shows "fst (try_block cfg environ c key w) = Inr (Success tk ths ai url)"
  using assms(4) unfolding handler_fresh_unfold [OF assms(1-3)] Let_def
  by (auto split: sum.splits)

lemma digit_less: "a < 10 \<Longrightarrow> b < 10 \<Longrightarrow> digit a < digit b \<longleftrightarrow> a < b"
  by (simp add: digit_def less_char_def)

lemma digit_eq: "a < 10 \<Longrightarrow> b < 10 \<Longrightarrow> digit a = digit b \<longleftrightarrow> a = b"
  using digit_less [of a b] digit_less [of b a] by (auto simp: neq_iff)

lemma digit_0: "digit 0 = CHR ''0''"
  by (rule of_char_eqI [where ?'a = nat]) (simp add: digit_def)

lemma printf_03d_small:
  assumes "n < 1000"
  shows "printf_03d n = [digit (n div 100), digit (n div 10 mod 10), digit (n mod 10)]"
proof -
  consider "n < 10" | "10 \<le> n" "n < 100" | "100 \<le> n" "n < 1000"
    using assms by linarith
  then show ?thesis
  proof cases
    case 1
    then have "decimal n = [digit n]"
      by (simp add: decimal.simps)
    with 1 show ?thesis
      by (simp add: printf_03d_def digit_0 numeral_3_eq_3)
  next
    case 2
    then have "n div 10 < 10" by simp
    with 2 have "decimal n = [digit (n div 10), digit (n mod 10)]"
      by (simp add: decimal.simps [of n] decimal.simps [of "n div 10"])
    with 2 show ?thesis
      by (simp add: printf_03d_def digit_0)
  next
    case 3
    then have a: "\<not> n div 10 < 10" "n div 10 div 10 < 10" by simp_all
    have b: "n div 10 div 10 = n div 100"
      by (simp add: div_mult2_eq [symmetric])
    from 3 a have "decimal n = [digit (n div 100), digit (n div 10 mod 10), digit (n mod 10)]"
      by (simp add: decimal.simps [of n] decimal.simps [of "n div 10"]
          decimal.simps [of "n div 100"] b)
    then show ?thesis
      by (simp add: printf_03d_def)
  qed
qed

lemma decimal_digits:
  "n = 100 * (n div 100) + 10 * (n div 10 mod 10) + n mod 10" for n :: nat
proof -
  have "n div 10 div 10 = n div 100"
    by (simp add: div_mult2_eq [symmetric])
  moreover have "n = 10 * (n div 10) + n mod 10"
    by simp
  moreover have "n div 10 = 10 * (n div 10 div 10) + n div 10 mod 10"
    by simp
  ultimately show ?thesis
    by linarith
qed

lemma printf_03d_mono:
  assumes "i < j" and "j < 1000"
  shows "printf_03d i < printf_03d j"
proof -
  define a b c where "a = i div 100" and "b = i div 10 mod 10" and "c = i mod 10"
  define a' b' c' where "a' = j div 100" and "b' = j div 10 mod 10" and "c' = j mod 10"
  have d: "a < 10" "a' < 10" "b < 10" "b' < 10" "c < 10" "c' < 10"
    using assms by (simp_all add: a_def b_def c_def a'_def b'_def c'_def)
  have "i = 100 * a + 10 * b + c" "j = 100 * a' + 10 * b' + c'"
    unfolding a_def b_def c_def a'_def b'_def c'_def by (rule decimal_digits)+
  with assms(1) d have "a < a' \<or> a = a' \<and> (b < b' \<or> b = b' \<and> c < c')"
    by linarith
  moreover have "printf_03d i = [digit a, digit b, digit c]"
    "printf_03d j = [digit a', digit b', digit c']"
    using assms by (simp_all add: printf_03d_small a_def b_def c_def a'_def b'_def c'_def)
  ultimately show ?thesis
    using d by (simp add: digit_less digit_eq)
qed

lemma append_less_cancel: "xs @ ys < xs @ zs \<longleftrightarrow> ys < zs" for xs :: "'a :: linorder list"
  by (induction xs) simp_all

lemma frame_file_mono:
  assumes "i < j" and "j < 1000"
  shows "frame_file (local_output_dir job_id) i < frame_file (local_output_dir job_id) j"
proof -
  have "printf_03d i @ ''.jpg'' < printf_03d j @ ''.jpg''"
    using printf_03d_mono [OF assms] assms
    by (simp add: printf_03d_small)
  then have "''/thumb_'' @ printf_03d i @ ''.jpg'' < ''/thumb_'' @ printf_03d j @ ''.jpg''"
    by simp
  then show ?thesis
    unfolding frame_file_path by (simp only: append_less_cancel)
qed

lemma sorted_frames:
  "n < 1000 \<Longrightarrow> sorted (map (frame_file (local_output_dir job_id)) [1..<Suc n])"
proof (induction n)
  case 0
  then show ?case by simp
next
  case (Suc n)
  have "\<forall>i \<in> set [1..<Suc n]. frame_file (local_output_dir job_id) i
      \<le> frame_file (local_output_dir job_id) (Suc n)"
    using Suc.prems by (auto intro!: less_imp_le frame_file_mono)
  with Suc show ?case
    by (simp add: sorted_append)
qed

lemma write_files_new:
  "distinct ps \<Longrightarrow> \<forall>p \<in> set ps. map_of (fs w) p = None \<Longrightarrow>
   write_files ps w = w\<lparr>fs := fs w @ map (\<lambda>p. (p, File)) ps\<rparr>"
proof (induction ps arbitrary: w)
  case Nil
  then show ?case by simp
next
  case (Cons p ps)
  let ?w1 = "w\<lparr>fs := fs w @ [(p, File)]\<rparr>"
  have "write_file p w = ?w1"
    using Cons.prems by (simp add: write_file_def)
  moreover have "\<forall>q \<in> set ps. map_of (fs ?w1) q = None"
    using Cons.prems by (auto simp: map_add_def)
  ultimately show ?case
    using Cons.IH [of ?w1] Cons.prems(1) by simp
qed

lemma digit_not_slash: "a < 10 \<Longrightarrow> digit a \<noteq> CHR ''/''"
proof
  assume "a < 10" and "digit a = CHR ''/''"
  then have "of_char (digit a) = (of_char CHR ''/'' :: nat)"
    by simp
  with \<open>a < 10\<close> show False
    by (simp add: digit_def)
qed

lemma frame_is_entry:
  assumes "i < 1000"
  shows "entry_of (local_output_dir j) (frame_file (local_output_dir j) i)"
    and "\<not> hidden (entry_name (local_output_dir j) (frame_file (local_output_dir j) i))"
    and "fnmatch_thumb (entry_name (local_output_dir j) (frame_file (local_output_dir j) i))"
  using assms
  by (simp_all add: frame_file_path printf_03d_small digit_not_slash [THEN not_sym]
      hidden_def fnmatch_thumb_def)

lemma generate_thumbnails_ok:
  assumes "thumbnail_status c = 0"
  shows "generate_thumbnails c input_path output_dir w =
           (Inr (sort (glob_in output_dir fnmatch_thumb
                   (write_files (map (frame_file output_dir) [1..<Suc (thumbnail_frames c)])
                      (record_call (Run [''ffmpeg'', ''-i'', input_path, ''-vf'', ''fps=1/10'',
                          ''-q:v'', ''3'', os_path_join output_dir ''thumb_%03d.jpg'']) w)))),
            write_files (map (frame_file output_dir) [1..<Suc (thumbnail_frames c)])
              (record_call (Run [''ffmpeg'', ''-i'', input_path, ''-vf'', ''fps=1/10'',
                  ''-q:v'', ''3'', os_path_join output_dir ''thumb_%03d.jpg'']) w))"
  unfolding generate_thumbnails_def subprocess_run_def Let_def using assms by simp

lemma thumbnails_sorted:
  "generate_thumbnails c input_path output_dir w = (Inr paths, w') \<Longrightarrow> sorted paths"
  unfolding generate_thumbnails_def Let_def
  by (auto split: prod.splits sum.splits)

lemma thumbnails_in_order:
  assumes st: "thumbnail_status c = 0"
    and n: "thumbnail_frames c < 1000"
    and dir: "map_of (fs w) (local_output_dir j) = Some Dir"
    and none: "glob_in (local_output_dir j) fnmatch_thumb w = []"
  shows "fst (generate_thumbnails c input_path (local_output_dir j) w) =
           Inr (map (frame_file (local_output_dir j)) [1..<Suc (thumbnail_frames c)])"
proof -
  let ?out = "local_output_dir j"
  let ?Q = "\<lambda>p. \<not> hidden (entry_name ?out p) \<and> fnmatch_thumb (entry_name ?out p)"
  define frames where "frames = map (frame_file ?out) [1..<Suc (thumbnail_frames c)]"
  define w0 where "w0 = record_call (Run [''ffmpeg'', ''-i'', input_path, ''-vf'', ''fps=1/10'',
      ''-q:v'', ''3'', os_path_join ?out ''thumb_%03d.jpg'']) w"
  have fs0: "fs w0 = fs w"
    by (simp add: w0_def record_call_def)
  have good: "entry_of ?out p \<and> ?Q p" if "p \<in> set frames" for p
  proof -
    from that obtain i where "p = frame_file ?out i" and "i < 1000"
      using n by (auto simp: frames_def)
    then show ?thesis
      using frame_is_entry [of i j] by simp
  qed
  have inj: "inj_on (frame_file ?out) (set [1..<Suc (thumbnail_frames c)])"
  proof (rule inj_onI)
    fix a b
    assume "a \<in> set [1..<Suc (thumbnail_frames c)]" "b \<in> set [1..<Suc (thumbnail_frames c)]"
      and eq: "frame_file ?out a = frame_file ?out b"
    then have "a < 1000" "b < 1000" using n by auto
    then show "a = b"
      using frame_file_mono [of a b j] frame_file_mono [of b a j] eq
      by (cases a b rule: linorder_cases) auto
  qed
  have dist: "distinct frames"
    unfolding frames_def distinct_map using inj by simp
  have new: "\<forall>p \<in> set frames. map_of (fs w0) p = None"
  proof (rule ballI, rule ccontr)
    fix p
    assume p: "p \<in> set frames" and "map_of (fs w0) p \<noteq> None"
    then have "p \<in> set (map fst (fs w))"
      by (simp add: fs0 map_of_eq_None_iff)
    with good [OF p] dir have "p \<in> set (glob_in ?out fnmatch_thumb w)"
      by (simp add: glob_in_def listdir_def)
    with none show False by simp
  qed
  define w1 where "w1 = write_files frames w0"
  have fs1: "fs w1 = fs w @ map (\<lambda>p. (p, File)) frames"
    by (simp add: w1_def write_files_new [OF dist new] fs0)
  have dir1: "map_of (fs w1) ?out = Some Dir"
    using dir by (simp add: fs1 map_add_def)
  have old: "filter ?Q (listdir ?out (fs w)) = []"
    using none dir by (simp add: glob_in_def)
  have "listdir ?out (map (\<lambda>p. (p, File)) frames) = frames"
    using good by (simp add: listdir_def comp_def)
  moreover have "filter ?Q frames = frames"
    using good by simp
  ultimately have "glob_in ?out fnmatch_thumb w1 = frames"
    using dir1 old by (simp add: glob_in_def fs1 listdir_append)
  moreover have "sorted frames"
    unfolding frames_def using n by (rule sorted_frames)
  ultimately have "sort (glob_in ?out fnmatch_thumb w1) = frames"
    by (simp add: sorted_sort_id)
  then show ?thesis
    unfolding generate_thumbnails_ok [OF st] frames_def w1_def w0_def by simp
qed

lemma calls_write_file [simp]: "calls (write_file p w) = calls w"
  by (simp add: write_file_def)

lemma calls_write_files [simp]: "calls (write_files ps w) = calls w"
  by (induction ps arbitrary: w) simp_all

text \<open>
  What a failed transcoder run leads to when the cleanup completes: the error response
  for the \<^verbatim>\<open>CalledProcessError\<close>, after the download and the one \<^verbatim>\<open>ffmpeg\<close> run and
  no upload, with both scratch directories gone.
\<close>

lemma failed_transcode_visible_key:
  assumes "py_getitem job ''input'' = Inr job_input"
    and "py_getitem job_input ''source_video_key'' = Inr (PStr key)"
    and "fresh_scratch (uuid4 c) w"
    and "\<not> hidden (os_path_basename key)"
    and "download_raises c = None"
    and "transcode_status c \<noteq> 0"
    and "local_input_path = os_path_join (local_input_dir (uuid4 c)) (os_path_basename key)"
    and "command = [''ffmpeg'', ''-i'', local_input_path, ''-c:v'', ''libx264'', ''-preset'',
           ''fast'', ''-c:a'', ''aac'', ''-b:a'', ''128k'', ''-movflags'', ''+faststart'',
           os_path_join (local_output_dir (uuid4 c))
             (fst (os_path_splitext (os_path_basename key)) @ ''_processed.mp4'')]"
  shows "\<exists>w'. handler (Some cfg) environ c job w =
           (Inr (Error (str_of (CalledProcessError (transcode_status c) command))), w') \<and>
         calls w' = calls w @ [Download (S3_BUCKET_NAME cfg) key local_input_path, Run command] \<and>
         \<not> os_path_exists (local_input_dir (uuid4 c)) w' \<and>
         \<not> os_path_exists (local_output_dir (uuid4 c)) w'"
proof -
  have "fst (try_block cfg environ c key w) =
      Inl (CalledProcessError (transcode_status c) command)"
    unfolding try_block_def handler_body_def s3_download_file_def transcode_to_mp4_def
      subprocess_run_def Let_def assms(7,8)
    using assms(5,6) by simp
  moreover have "calls (snd (try_block cfg environ c key w)) =
      calls w @ [Download (S3_BUCKET_NAME cfg) key local_input_path, Run command]"
    unfolding try_block_def handler_body_def s3_download_file_def transcode_to_mp4_def
      subprocess_run_def Let_def assms(7,8)
    using assms(5,6) by (simp add: record_call_def scratch_ready_def)
  ultimately show ?thesis
    using handler_completes [OF assms(1-4), of cfg environ] by auto
qed

subsection \<open>Configuration and input validation\<close>

text \<open>
  C8: when one of the four storage variables is absent at process start, every job,
  whatever its argument, gets the misconfiguration response, and the world is left as
  it was: no call to a collaborator is made and no directory is created.
\<close>

theorem misconfigured_every_job:
  assumes "environ ''CLOUDFLARE_ACCOUNT_ID'' = None \<or>
           environ ''CLOUDFLARE_R2_ACCESS_KEY_ID'' = None \<or>
           environ ''CLOUDFLARE_R2_SECRET_ACCESS_KEY'' = None \<or>
           environ ''CLOUDFLARE_R2_BUCKET_NAME'' = None"
  shows "handler (module_init environ) environ' c job w =
           (Inr (Error (Literal ''Server is misconfigured. Missing R2 environment variables.'')), w)"
proof -
  from assms have "module_init environ = None"
    by (auto simp: module_init_def split: option.splits)
  then show ?thesis
    by (simp add: handler_def misconfigured_def)
qed

theorem misconfigured_every_job_witness:
  "(r2_environ(''CLOUDFLARE_R2_BUCKET_NAME'' := None)) ''CLOUDFLARE_R2_BUCKET_NAME'' = None \<and>
   handler (module_init (r2_environ(''CLOUDFLARE_R2_BUCKET_NAME'' := None))) r2_environ all_fine
       (job_for (PStr ''videos/clip.mov'')) empty_world =
     (Inr (Error (Literal ''Server is misconfigured. Missing R2 environment variables.'')),
      empty_world)"
proof -
  have h: "(r2_environ(''CLOUDFLARE_R2_BUCKET_NAME'' := None)) ''CLOUDFLARE_R2_BUCKET_NAME'' = None"
    by simp
  then have "(r2_environ(''CLOUDFLARE_R2_BUCKET_NAME'' := None)) ''CLOUDFLARE_ACCOUNT_ID'' = None \<or>
      (r2_environ(''CLOUDFLARE_R2_BUCKET_NAME'' := None)) ''CLOUDFLARE_R2_ACCESS_KEY_ID'' = None \<or>
      (r2_environ(''CLOUDFLARE_R2_BUCKET_NAME'' := None)) ''CLOUDFLARE_R2_SECRET_ACCESS_KEY'' = None \<or>
      (r2_environ(''CLOUDFLARE_R2_BUCKET_NAME'' := None)) ''CLOUDFLARE_R2_BUCKET_NAME'' = None"
    by blast
  from misconfigured_every_job [OF this] h show ?thesis
    by blast
qed

text \<open>
  C3, as the code has it: with the storage configuration present, a job whose input
  dict has no \<^verbatim>\<open>source_video_key\<close> entry gets the missing-key response, and the world
  is left as it was (no directory created, no call made). An entry that is present
  but empty is not rejected.
\<close>

theorem missing_key_rejected:
  assumes "py_getitem job ''input'' = Inr (PDict kvs)"
    and "map_of kvs ''source_video_key'' = None"
  shows "handler (Some cfg) environ c job w =
           (Inr (Error (Literal ''Missing 'source_video_key' in job input.'')), w)"
  using assms by (simp add: handler_def missing_key_def)

theorem missing_key_rejected_witness:
  "py_getitem (PDict [(''input'', PDict [(''video'', PStr ''videos/clip.mov'')])]) ''input'' =
     Inr (PDict [(''video'', PStr ''videos/clip.mov'')]) \<and>
   map_of [(''video'', PStr ''videos/clip.mov'')] ''source_video_key'' = None \<and>
   handler (Some r2_config) r2_environ all_fine
       (PDict [(''input'', PDict [(''video'', PStr ''videos/clip.mov'')])]) empty_world =
     (Inr (Error (Literal ''Missing 'source_video_key' in job input.'')), empty_world)"
proof -
  have h1: "py_getitem (PDict [(''input'', PDict [(''video'', PStr ''videos/clip.mov'')])]) ''input'' =
     Inr (PDict [(''video'', PStr ''videos/clip.mov'')])"
    by simp
  have h2: "map_of [(''video'', PStr ''videos/clip.mov'')] ''source_video_key'' = None"
    by simp
  from missing_key_rejected [OF h1 h2] h1 h2 show ?thesis
    by blast
qed

text \<open>
  C3 as stated fails for an empty key: with \<^verbatim>\<open>{"source_video_key": ""}\<close> the handler
  does not answer with the missing-key response. It goes on to the download, which is
  called with the empty key and the path \<^verbatim>\<open>/tmp/<job_id>_input/\<close> inside the scratch
  directory created for it, and answers with the error of that call.
\<close>

theorem empty_key_counterexample:
  "fst (handler (Some r2_config) r2_environ (all_fine\<lparr>download_raises := Some ''no such key''\<rparr>)
          (job_for (PStr '''')) empty_world) =
     Inr (Error (str_of (StorageError ''no such key''))) \<and>
   calls (snd (handler (Some r2_config) r2_environ
                 (all_fine\<lparr>download_raises := Some ''no such key''\<rparr>)
                 (job_for (PStr '''')) empty_world)) =
     [Download ''media'' '''' ''/tmp/6f1c_input/'']"
  by code_simp

text \<open>
  C10, as the code has it: with the storage configuration present, a job dict without
  an \<^verbatim>\<open>input\<close> entry makes the handler raise \<^verbatim>\<open>KeyError('input')\<close>, nothing else
  happening; and a failure of either \<^verbatim>\<open>os.makedirs\<close> call leaves the handler as an
  exception too, since both stand before the \<^verbatim>\<open>try\<close> statement.
\<close>

theorem missing_input_raises:
  "(map_of kvs ''input'' = None \<longrightarrow>
      handler (Some cfg) environ c (PDict kvs) w = (Inl (KeyError ''input''), w)) \<and>
   (py_getitem job ''input'' = Inr job_input \<longrightarrow>
    py_getitem job_input ''source_video_key'' = Inr v \<longrightarrow>
    os_makedirs (local_input_dir (uuid4 c)) w = Inl e \<longrightarrow>
      handler (Some cfg) environ c job w = (Inl e, w)) \<and>
   (py_getitem job ''input'' = Inr job_input \<longrightarrow>
    py_getitem job_input ''source_video_key'' = Inr v \<longrightarrow>
    os_makedirs (local_input_dir (uuid4 c)) w = Inr w1 \<longrightarrow>
    os_makedirs (local_output_dir (uuid4 c)) w1 = Inl e \<longrightarrow>
      handler (Some cfg) environ c job w = (Inl e, w1))"
  by (simp add: handler_def)

theorem missing_input_raises_witness:
  "map_of [(''id'', PStr ''job-1'')] ''input'' = None \<and>
   handler (Some r2_config) r2_environ all_fine (PDict [(''id'', PStr ''job-1'')]) empty_world =
     (Inl (KeyError ''input''), empty_world) \<and>
   os_makedirs (local_input_dir (uuid4 all_fine)) \<lparr>fs = [(''/tmp/6f1c_input'', File)], calls = []\<rparr> =
     Inl (OSError ''EEXIST'') \<and>
   handler (Some r2_config) r2_environ all_fine (job_for (PStr ''videos/clip.mov''))
       \<lparr>fs = [(''/tmp/6f1c_input'', File)], calls = []\<rparr> =
     (Inl (OSError ''EEXIST''), \<lparr>fs = [(''/tmp/6f1c_input'', File)], calls = []\<rparr>) \<and>
   os_makedirs (local_output_dir (uuid4 all_fine))
       \<lparr>fs = [(''/tmp/6f1c_output'', File), (''/tmp/6f1c_input'', Dir)], calls = []\<rparr> =
     Inl (OSError ''EEXIST'') \<and>
   handler (Some r2_config) r2_environ all_fine (job_for (PStr ''videos/clip.mov''))
       \<lparr>fs = [(''/tmp/6f1c_output'', File)], calls = []\<rparr> =
     (Inl (OSError ''EEXIST''),
      \<lparr>fs = [(''/tmp/6f1c_output'', File), (''/tmp/6f1c_input'', Dir)], calls = []\<rparr>)"
proof -
  let ?job = "job_for (PStr ''videos/clip.mov'')"
  let ?wa = "\<lparr>fs = [(''/tmp/6f1c_input'', File)], calls = []\<rparr>"
  let ?wb = "\<lparr>fs = [(''/tmp/6f1c_output'', File)], calls = []\<rparr>"
  let ?wb1 = "\<lparr>fs = [(''/tmp/6f1c_output'', File), (''/tmp/6f1c_input'', Dir)], calls = []\<rparr>"
  have k: "map_of [(''id'', PStr ''job-1'')] ''input'' = None"
    by simp
  have j1: "py_getitem ?job ''input'' = Inr (PDict [(''source_video_key'', PStr ''videos/clip.mov'')])"
    by (simp add: job_for_def)
  have j2: "py_getitem (PDict [(''source_video_key'', PStr ''videos/clip.mov'')]) ''source_video_key'' =
      Inr (PStr ''videos/clip.mov'')"
    by simp
  have a: "os_makedirs (local_input_dir (uuid4 all_fine)) ?wa = Inl (OSError ''EEXIST'')"
    by (simp add: os_makedirs_def local_input_dir_def all_fine_def)
  have b1: "os_makedirs (local_input_dir (uuid4 all_fine)) ?wb = Inr ?wb1"
    by (simp add: os_makedirs_def local_input_dir_def all_fine_def)
  have b2: "os_makedirs (local_output_dir (uuid4 all_fine)) ?wb1 = Inl (OSError ''EEXIST'')"
    by (simp add: os_makedirs_def local_output_dir_def all_fine_def)
  note t0 = missing_input_raises [where kvs = "[(''id'', PStr ''job-1'')]" and cfg = r2_config
      and environ = r2_environ and c = all_fine and w = empty_world]
  note t1 = missing_input_raises [where cfg = r2_config and environ = r2_environ
      and c = all_fine and w = ?wa and job = ?job and e = "OSError ''EEXIST''"]
  note t2 = missing_input_raises [where cfg = r2_config and environ = r2_environ
      and c = all_fine and w = ?wb and job = ?job and e = "OSError ''EEXIST''" and ?w1.0 = ?wb1]
  from t0 k have c1: "handler (Some r2_config) r2_environ all_fine (PDict [(''id'', PStr ''job-1'')])
      empty_world = (Inl (KeyError ''input''), empty_world)"
    by blast
  from t1 j1 j2 a have c2: "handler (Some r2_config) r2_environ all_fine ?job ?wa =
      (Inl (OSError ''EEXIST''), ?wa)"
    by blast
  from t2 j1 j2 b1 b2 have c3: "handler (Some r2_config) r2_environ all_fine ?job ?wb =
      (Inl (OSError ''EEXIST''), ?wb1)"
    by blast
  from k c1 a c2 b2 c3 show ?thesis
    by blast
qed

text \<open>
  C10 as stated fails when the storage configuration is absent: the configuration is
  checked first, and the job without \<^verbatim>\<open>input\<close> gets the misconfiguration response.
\<close>

theorem missing_input_counterexample:
  "handler (module_init Map.empty) Map.empty all_fine (PDict []) empty_world =
     (Inr (Error (Literal ''Server is misconfigured. Missing R2 environment variables.'')),
      empty_world)"
  by (simp add: module_init_def handler_def misconfigured_def)

subsection \<open>The analysis stage\<close>


subsection \<open>Cleanup and hidden files\<close>

text \<open>
  C1 at the job \<^verbatim>\<open>{"source_video_key": "videos/.clip.mov"}\<close>, every collaborator
  succeeding: the file \<^verbatim>\<open>.clip.mov\<close> is fetched into the input directory, the pattern
  \<^verbatim>\<open>*\<close> of the cleanup does not match it, \<^verbatim>\<open>os.rmdir\<close> raises on the directory that
  is not empty, and both scratch directories are still there when the handler is left.
\<close>

theorem hidden_file_survives_cleanup:
  "fst (handler (Some r2_config) r2_environ all_fine hidden_clip_job empty_world) =
     Inl (OSError ''ENOTEMPTY'') \<and>
   fs (snd (handler (Some r2_config) r2_environ all_fine hidden_clip_job empty_world)) =
     [(''/tmp/6f1c_input'', Dir), (''/tmp/6f1c_output'', Dir),
      (''/tmp/6f1c_input/.clip.mov'', File),
      (''/tmp/6f1c_output/.clip_processed.mp4'', File),
      (''/tmp/6f1c_output/thumb_001.jpg'', File),
      (''/tmp/6f1c_output/thumb_002.jpg'', File)] \<and>
   os_path_exists (local_input_dir ''6f1c'')
     (snd (handler (Some r2_config) r2_environ all_fine hidden_clip_job empty_world)) \<and>
   os_path_exists (local_output_dir ''6f1c'')
     (snd (handler (Some r2_config) r2_environ all_fine hidden_clip_job empty_world))"
  by code_simp

text \<open>
  C4 at the same job with a transcoder that exits with status 1: no upload is made,
  but the handler is left by the \<^verbatim>\<open>OSError\<close> of the cleanup instead of returning the
  error response, and both scratch directories are still there.
\<close>

theorem failed_transcode_hidden_file:
  "handler (Some r2_config) r2_environ (all_fine\<lparr>transcode_status := 1\<rparr>) hidden_clip_job
       empty_world =
     (Inl (OSError ''ENOTEMPTY''),
      \<lparr>fs = [(''/tmp/6f1c_input'', Dir), (''/tmp/6f1c_output'', Dir),
             (''/tmp/6f1c_input/.clip.mov'', File),
             (''/tmp/6f1c_output/.clip_processed.mp4'', File)],
        calls = [Download ''media'' ''videos/.clip.mov'' ''/tmp/6f1c_input/.clip.mov'',
                 Run [''ffmpeg'', ''-i'', ''/tmp/6f1c_input/.clip.mov'', ''-c:v'', ''libx264'',
                      ''-preset'', ''fast'', ''-c:a'', ''aac'', ''-b:a'', ''128k'',
                      ''-movflags'', ''+faststart'', ''/tmp/6f1c_output/.clip_processed.mp4'']]\<rparr>)"
  by code_simp

subsection \<open>The catch-all boundary\<close>

text \<open>
  C2, as the code has it: with the storage configuration present, a job whose input
  dict holds a string \<^verbatim>\<open>source_video_key\<close>, unused scratch names and a key whose base
  name does not start with a dot, the handler returns exactly one response: the
  response of the \<^verbatim>\<open>try\<close> block when it returns, and \<^verbatim>\<open>{"error": str(e)}\<close> for every
  exception \<open>e\<close> the block raises, whichever collaborator raised it. The cleanup then
  completes, and both scratch directories are gone. Exceptions raised before the
  \<^verbatim>\<open>try\<close> statement and exceptions raised by the cleanup are not caught.
\<close>

theorem try_block_failures_become_responses:
  assumes "py_getitem job ''input'' = Inr job_input"
    and "py_getitem job_input ''source_video_key'' = Inr (PStr key)"
    and "fresh_scratch (uuid4 c) w"
    and "\<not> hidden (os_path_basename key)"
  shows "\<exists>w'. handler (Some cfg) environ c job w =
           (Inr (case fst (try_block cfg environ c key w) of
                   Inl e \<Rightarrow> Error (str_of e) | Inr r \<Rightarrow> r), w') \<and>
         \<not> os_path_exists (local_input_dir (uuid4 c)) w' \<and>
         \<not> os_path_exists (local_output_dir (uuid4 c)) w'"
  using handler_completes [OF assms] by blast

theorem try_block_failures_become_responses_witness:
  "py_getitem (job_for (PStr ''videos/clip.mov'')) ''input'' =
     Inr (PDict [(''source_video_key'', PStr ''videos/clip.mov'')]) \<and>
   py_getitem (PDict [(''source_video_key'', PStr ''videos/clip.mov'')]) ''source_video_key'' =
     Inr (PStr ''videos/clip.mov'') \<and>
   fresh_scratch (uuid4 (all_fine\<lparr>upload_raises := \<lambda>k. Some ''denied''\<rparr>)) empty_world \<and>
   \<not> hidden (os_path_basename ''videos/clip.mov'') \<and>
   (\<exists>w'. handler (Some r2_config) r2_environ (all_fine\<lparr>upload_raises := \<lambda>k. Some ''denied''\<rparr>)
            (job_for (PStr ''videos/clip.mov'')) empty_world =
          (Inr (Error (str_of (StorageError ''denied''))), w') \<and>
        \<not> os_path_exists (local_input_dir ''6f1c'') w' \<and>
        \<not> os_path_exists (local_output_dir ''6f1c'') w')"
proof -
  let ?c = "all_fine\<lparr>upload_raises := \<lambda>k. Some ''denied''\<rparr>"
  have h1: "py_getitem (job_for (PStr ''videos/clip.mov'')) ''input'' =
      Inr (PDict [(''source_video_key'', PStr ''videos/clip.mov'')])"
    by (simp add: job_for_def)
  have h2: "py_getitem (PDict [(''source_video_key'', PStr ''videos/clip.mov'')])
      ''source_video_key'' = Inr (PStr ''videos/clip.mov'')"
    by simp
  have h3: "fresh_scratch (uuid4 ?c) empty_world"
    by (simp add: fresh_scratch_def empty_world_def listdir_def)
  have h4: "\<not> hidden (os_path_basename ''videos/clip.mov'')"
    by code_simp
  have u: "uuid4 ?c = ''6f1c''"
    by (simp add: all_fine_def)
  have t: "fst (try_block r2_config r2_environ ?c ''videos/clip.mov'' empty_world) =
      Inl (StorageError ''denied'')"
    by code_simp
  from try_block_failures_become_responses [OF h1 h2 h3 h4, of r2_config r2_environ]
  have "\<exists>w'. handler (Some r2_config) r2_environ ?c (job_for (PStr ''videos/clip.mov''))
          empty_world = (Inr (Error (str_of (StorageError ''denied''))), w') \<and>
        \<not> os_path_exists (local_input_dir ''6f1c'') w' \<and>
        \<not> os_path_exists (local_output_dir ''6f1c'') w'"
    unfolding t u by simp
  with h1 h2 h3 h4 show ?thesis
    by blast
qed

text \<open>
  C2 as stated fails twice. The job input \<^verbatim>\<open>{"source_video_key": null}\<close> makes
  \<^verbatim>\<open>os.path.basename\<close> raise \<^verbatim>\<open>TypeError\<close> on line 122, before the \<^verbatim>\<open>try\<close>
  statement. And when the cleanup raises, its exception replaces the response that
  was about to be returned: here the error response for the failed upload.
\<close>

theorem unhandled_fault_counterexample:
  "fst (handler (Some r2_config) r2_environ all_fine (job_for PNone) empty_world) = Inl TypeError \<and>
   fst (handler (Some r2_config) r2_environ (all_fine\<lparr>upload_raises := \<lambda>k. Some ''denied''\<rparr>)
          hidden_clip_job empty_world) = Inl (OSError ''ENOTEMPTY'')"
  by code_simp

subsection \<open>Object keys\<close>



text \<open>
  The thumbnail keys of a success response. When the handler, started with unused
  scratch names, returns a success response, its \<^verbatim>\<open>thumbnail_keys\<close> are the keys
  \<^verbatim>\<open>processed/<job_id>/thumbnails/<file name>\<close> of the members of the Thumbnail Set, one
  for each and in the same order. And for a key whose base name does not start with a
  dot, an empty Thumbnail Set does not stop the job: when the download, the transcoder
  and the upload of the transcoded file succeed, the handler returns the success
  response with \<^verbatim>\<open>thumbnail_keys = []\<close>.
\<close>

lemma thumbnail_keys_of_success:
  assumes "py_getitem job ''input'' = Inr job_input"
    and "py_getitem job_input ''source_video_key'' = Inr (PStr key)"
    and "fresh_scratch (uuid4 c) w"
  shows "(fst (handler (Some cfg) environ c job w) = Inr (Success tk ths ai url) \<longrightarrow>
            (\<exists>paths. thumbnail_set cfg c key w = Inr paths \<and>
               ths = map (thumbnail_key (uuid4 c)) paths \<and> length ths = length paths)) \<and>
         (\<not> hidden (os_path_basename key) \<and> download_raises c = None \<and>
          transcode_status c = 0 \<and> thumbnail_set cfg c key w = Inr [] \<and>
          upload_raises c (''processed/'' @ uuid4 c @ ''/'' @
             fst (os_path_splitext (os_path_basename key)) @ ''_processed.mp4'') = None \<longrightarrow>
            (\<exists>ai url. fst (handler (Some cfg) environ c job w) =
               Inr (Success (''processed/'' @ uuid4 c @ ''/'' @
                       fst (os_path_splitext (os_path_basename key)) @ ''_processed.mp4'')
                     [] ai url)))"
proof (intro conjI impI)
  assume "fst (handler (Some cfg) environ c job w) = Inr (Success tk ths ai url)"
  then obtain w' where "handler (Some cfg) environ c job w = (Inr (Success tk ths ai url), w')"
    by (cases "handler (Some cfg) environ c job w") simp
  from handler_success_from_try_block [OF assms this]
  obtain w3 where "try_block cfg environ c key w = (Inr (Success tk ths ai url), w3)"
    by (cases "try_block cfg environ c key w") simp
  from handler_body_success [OF this [unfolded try_block_def]]
  show "\<exists>paths. thumbnail_set cfg c key w = Inr paths \<and>
               ths = map (thumbnail_key (uuid4 c)) paths \<and> length ths = length paths"
    by (auto simp: thumbnail_set_def Let_def)
next
  let ?lip = "os_path_join (local_input_dir (uuid4 c)) (os_path_basename key)"
  let ?tf = "fst (os_path_splitext (os_path_basename key)) @ ''_processed.mp4''"
  let ?ltp = "os_path_join (local_output_dir (uuid4 c)) ?tf"
  let ?tk = "''processed/'' @ uuid4 c @ ''/'' @ ?tf"
  assume a: "\<not> hidden (os_path_basename key) \<and> download_raises c = None \<and>
          transcode_status c = 0 \<and> thumbnail_set cfg c key w = Inr [] \<and>
          upload_raises c ?tk = None"
  obtain r1 w1 where d: "s3_download_file c (S3_BUCKET_NAME cfg) key ?lip (scratch_ready (uuid4 c) w) = (r1, w1)"
    by (cases "s3_download_file c (S3_BUCKET_NAME cfg) key ?lip (scratch_ready (uuid4 c) w)")
  with a have r1: "r1 = Inr ()"
    by (auto simp: s3_download_file_def Let_def)
  obtain r2 w2 where t: "transcode_to_mp4 c ?lip ?ltp w1 = (r2, w2)"
    by (cases "transcode_to_mp4 c ?lip ?ltp w1")
  with a have r2: "r2 = Inr ()"
    by (auto simp: transcode_to_mp4_def subprocess_run_def Let_def)
  obtain r3 w3 where g: "generate_thumbnails c ?ltp (local_output_dir (uuid4 c)) w2 = (r3, w3)"
    by (cases "generate_thumbnails c ?ltp (local_output_dir (uuid4 c)) w2")
  with a d t have r3: "r3 = Inr []"
    by (simp add: thumbnail_set_def Let_def)
  obtain r4 w4 where u: "s3_upload_file c ?ltp (S3_BUCKET_NAME cfg) ?tk w3 = (r4, w4)"
    by (cases "s3_upload_file c ?ltp (S3_BUCKET_NAME cfg) ?tk w3")
  with a have r4: "r4 = Inr ()"
    by (auto simp: s3_upload_file_def Let_def)
  have "\<exists>ai url. fst (try_block cfg environ c key w) = Inr (Success ?tk [] ai url)"
    unfolding try_block_def handler_body_def Let_def
    using d t g u r1 r2 r3 r4 by simp
  then obtain ai url where
    tb: "fst (try_block cfg environ c key w) = Inr (Success ?tk [] ai url)"
    by blast
  from a have "\<not> hidden (os_path_basename key)" by simp
  from handler_completes [OF assms this, of cfg environ] tb
  show "\<exists>ai url. fst (handler (Some cfg) environ c job w) = Inr (Success ?tk [] ai url)"
    by auto
qed

text \<open>
  C5 at the job \<^verbatim>\<open>{"source_video_key": "videos/.clip.mov"}\<close> for a clip too short for
  any thumbnail, every collaborator succeeding: the job reaches the publish stage with
  an empty Thumbnail Set and the \<^verbatim>\<open>try\<close> block builds the success response with
  \<^verbatim>\<open>thumbnail_keys = []\<close>, but the cleanup leaves \<^verbatim>\<open>.clip.mov\<close> behind, \<^verbatim>\<open>os.rmdir\<close>
  raises, and the handler is left by that \<^verbatim>\<open>OSError\<close> instead of returning the
  response.
\<close>

theorem empty_thumbnail_set_hidden_file:
  "thumbnail_set r2_config (all_fine\<lparr>thumbnail_frames := 0\<rparr>) ''videos/.clip.mov'' empty_world =
     Inr [] \<and>
   fst (try_block r2_config r2_environ (all_fine\<lparr>thumbnail_frames := 0\<rparr>) ''videos/.clip.mov''
          empty_world) =
     Inr (Success ''processed/6f1c/.clip_processed.mp4'' []
            [(''status'', ''pending''),
             (''message'', ''AI analysis will be implemented in the future.'')]
            ''https://YOUR-PUBLIC-URL.dev/processed/6f1c'') \<and>
   fst (handler (Some r2_config) r2_environ (all_fine\<lparr>thumbnail_frames := 0\<rparr>) hidden_clip_job
          empty_world) =
     Inl (OSError ''ENOTEMPTY'') \<and>
   os_path_exists (local_input_dir ''6f1c'')
     (snd (handler (Some r2_config) r2_environ (all_fine\<lparr>thumbnail_frames := 0\<rparr>)
             hidden_clip_job empty_world)) \<and>
   os_path_exists (local_output_dir ''6f1c'')
     (snd (handler (Some r2_config) r2_environ (all_fine\<lparr>thumbnail_frames := 0\<rparr>)
             hidden_clip_job empty_world))"
  by code_simp

subsection \<open>The order of the thumbnails\<close>

text \<open>
  C7, as the code has it: the list the thumbnail stage returns is always sorted
  lexicographically; and when the run writes at most 999 frames into an output
  directory that held no thumbnail before, that list is the list of the frames in
  capture order: frame 1, frame 2, and so on. From frame 1000 on the number has four
  digits and the lexicographic order is no longer the capture order.
\<close>

theorem thumbnails_sorted_and_chronological:
  "(generate_thumbnails c input_path output_dir w = (Inr paths, w') \<longrightarrow> sorted paths) \<and>
   (thumbnail_status c = 0 \<and> thumbnail_frames c < 1000 \<and>
    map_of (fs w) (local_output_dir job_id) = Some Dir \<and>
    glob_in (local_output_dir job_id) fnmatch_thumb w = [] \<longrightarrow>
      fst (generate_thumbnails c input_path (local_output_dir job_id) w) =
        Inr (map (frame_file (local_output_dir job_id)) [1..<Suc (thumbnail_frames c)]))"
  using thumbnails_sorted [of c input_path output_dir w paths w']
    thumbnails_in_order [of c w job_id input_path]
  by blast

theorem thumbnails_sorted_and_chronological_witness:
  "generate_thumbnails all_fine ''/tmp/6f1c_output/clip_processed.mp4'' ''/tmp/6f1c_output''
       \<lparr>fs = [(''/tmp/6f1c_output'', Dir)], calls = []\<rparr> =
     (Inr [''/tmp/6f1c_output/thumb_001.jpg'', ''/tmp/6f1c_output/thumb_002.jpg''],
      \<lparr>fs = [(''/tmp/6f1c_output'', Dir), (''/tmp/6f1c_output/thumb_001.jpg'', File),
             (''/tmp/6f1c_output/thumb_002.jpg'', File)],
        calls = [Run [''ffmpeg'', ''-i'', ''/tmp/6f1c_output/clip_processed.mp4'', ''-vf'',
                      ''fps=1/10'', ''-q:v'', ''3'', ''/tmp/6f1c_output/thumb_%03d.jpg'']]\<rparr>) \<and>
   sorted [''/tmp/6f1c_output/thumb_001.jpg'', ''/tmp/6f1c_output/thumb_002.jpg''] \<and>
   thumbnail_status all_fine = 0 \<and> thumbnail_frames all_fine < 1000 \<and>
   map_of (fs \<lparr>fs = [(''/tmp/6f1c_output'', Dir)], calls = []\<rparr>) (local_output_dir ''6f1c'') =
     Some Dir \<and>
   glob_in (local_output_dir ''6f1c'') fnmatch_thumb
     \<lparr>fs = [(''/tmp/6f1c_output'', Dir)], calls = []\<rparr> = [] \<and>
   fst (generate_thumbnails all_fine ''/tmp/6f1c_output/clip_processed.mp4''
          (local_output_dir ''6f1c'') \<lparr>fs = [(''/tmp/6f1c_output'', Dir)], calls = []\<rparr>) =
     Inr (map (frame_file (local_output_dir ''6f1c'')) [1..<Suc (thumbnail_frames all_fine)])"
proof -
  let ?w = "\<lparr>fs = [(''/tmp/6f1c_output'', Dir)], calls = []\<rparr>"
  let ?ip = "''/tmp/6f1c_output/clip_processed.mp4''"
  let ?paths = "[''/tmp/6f1c_output/thumb_001.jpg'', ''/tmp/6f1c_output/thumb_002.jpg'']"
  let ?w' = "\<lparr>fs = [(''/tmp/6f1c_output'', Dir), (''/tmp/6f1c_output/thumb_001.jpg'', File),
             (''/tmp/6f1c_output/thumb_002.jpg'', File)],
        calls = [Run [''ffmpeg'', ''-i'', ''/tmp/6f1c_output/clip_processed.mp4'', ''-vf'',
                      ''fps=1/10'', ''-q:v'', ''3'', ''/tmp/6f1c_output/thumb_%03d.jpg'']]\<rparr>"
  have g: "generate_thumbnails all_fine ?ip ''/tmp/6f1c_output'' ?w = (Inr ?paths, ?w')"
    by code_simp
  have a: "thumbnail_status all_fine = 0" "thumbnail_frames all_fine < 1000"
    by (simp_all add: all_fine_def)
  have b: "map_of (fs ?w) (local_output_dir ''6f1c'') = Some Dir"
    by (simp add: local_output_dir_def)
  have e: "glob_in (local_output_dir ''6f1c'') fnmatch_thumb ?w = []"
    by code_simp
  note t1 = thumbnails_sorted_and_chronological
    [of all_fine ?ip "''/tmp/6f1c_output''" ?w ?paths ?w' "''6f1c''"]
  from t1 g have s: "sorted ?paths"
    by blast
  from t1 a b e have "fst (generate_thumbnails all_fine ?ip (local_output_dir ''6f1c'') ?w) =
      Inr (map (frame_file (local_output_dir ''6f1c'')) [1..<Suc (thumbnail_frames all_fine)])"
    by blast
  with g s a b e show ?thesis
    by blast
qed

text \<open>
  C7 as stated fails for a clip with 1000 thumbnails: the list returned is not the
  list of the frames in capture order, since \<^verbatim>\<open>thumb_1000.jpg\<close> sorts before
  \<^verbatim>\<open>thumb_101.jpg\<close>.
\<close>

theorem thousand_thumbnails_counterexample:
  "fst (generate_thumbnails (all_fine\<lparr>thumbnail_frames := 1000\<rparr>)
          ''/tmp/6f1c_output/clip_processed.mp4'' ''/tmp/6f1c_output''
          \<lparr>fs = [(''/tmp/6f1c_output'', Dir)], calls = []\<rparr>) \<noteq>
     Inr (map (frame_file ''/tmp/6f1c_output'') [1..<1001]) \<and>
   frame_file ''/tmp/6f1c_output'' 1000 < frame_file ''/tmp/6f1c_output'' 101"
proof -
  let ?c = "all_fine\<lparr>thumbnail_frames := 1000\<rparr>"
  let ?w = "\<lparr>fs = [(''/tmp/6f1c_output'', Dir)], calls = []\<rparr>"
  let ?frames = "map (frame_file ''/tmp/6f1c_output'') [1..<1001]"
  have lt: "frame_file ''/tmp/6f1c_output'' 1000 < frame_file ''/tmp/6f1c_output'' 101"
    by code_simp
  have st: "thumbnail_status ?c = 0"
    by (simp add: all_fine_def)
  have "fst (generate_thumbnails ?c ''/tmp/6f1c_output/clip_processed.mp4''
          ''/tmp/6f1c_output'' ?w) \<noteq> Inr ?frames"
  proof
    assume "fst (generate_thumbnails ?c ''/tmp/6f1c_output/clip_processed.mp4''
          ''/tmp/6f1c_output'' ?w) = Inr ?frames"
    then obtain w' where "generate_thumbnails ?c ''/tmp/6f1c_output/clip_processed.mp4''
          ''/tmp/6f1c_output'' ?w = (Inr ?frames, w')"
      by (cases "generate_thumbnails ?c ''/tmp/6f1c_output/clip_processed.mp4''
          ''/tmp/6f1c_output'' ?w") simp
    then have "sorted ?frames"
      by (rule thumbnails_sorted)
    moreover have "(100::nat) \<le> 999" "999 < length ?frames"
      by simp_all
    ultimately have "?frames ! 100 \<le> ?frames ! 999"
      by (rule sorted_nth_mono)
    moreover have "?frames ! 100 = frame_file ''/tmp/6f1c_output'' 101"
      "?frames ! 999 = frame_file ''/tmp/6f1c_output'' 1000"
      by (simp_all del: upt_Suc)
    ultimately show False
      using lt by simp
  qed
  with lt show ?thesis
    by blast
qed

end
